theory Spec2Isabelle
  imports Complex_Main "HOL-Library.Word"
begin

section \<open>The mixed unitary error channel of \<^verbatim>\<open>src/noise/unitary_error.hpp\<close>\<close>

subsection \<open>Values of the C++ types\<close>

text \<open>
  A \<^verbatim>\<open>double\<close> is a finite number, one of the two infinities or a NaN. Signed zeros are
  both \<open>Fin 0\<close> (they compare equal) and every NaN is \<open>NaN\<close>. Arithmetic on finite values
  is exact here: rounding and overflow to an infinity are outside this model.
\<close>

datatype double = Fin real | PInf | NInf | NaN

text \<open>\<^verbatim>\<open>a < b\<close> on doubles: false as soon as one side is a NaN.\<close>

fun dless :: "double \<Rightarrow> double \<Rightarrow> bool" where
  "dless (Fin a) (Fin b) = (a < b)"
| "dless (Fin a) PInf = True"
| "dless NInf (Fin b) = True"
| "dless NInf PInf = True"
| "dless _ _ = False"

text \<open>\<^verbatim>\<open>a > b\<close> on doubles.\<close>

definition dgreater :: "double \<Rightarrow> double \<Rightarrow> bool" where
  "dgreater a b = dless b a"

text \<open>\<^verbatim>\<open>a - b\<close> on doubles: a NaN operand gives NaN, and so does the difference of equal infinities.\<close>

fun dminus :: "double \<Rightarrow> double \<Rightarrow> double" where
  "dminus (Fin a) (Fin b) = Fin (a - b)"
| "dminus NaN _ = NaN"
| "dminus _ NaN = NaN"
| "dminus PInf PInf = NaN"
| "dminus NInf NInf = NaN"
| "dminus PInf _ = PInf"
| "dminus NInf _ = NInf"
| "dminus (Fin a) PInf = NInf"
| "dminus (Fin a) NInf = PInf"

type_synonym uint_t = "64 word"
type_synonym reg_t = "uint_t list"
type_synonym rvector_t = "double list"

text \<open>Both functions throw \<^verbatim>\<open>std::invalid_argument\<close>; the value carries the message.\<close>

datatype error = invalid_argument string

text \<open>
  \<^verbatim>\<open>Operations::Op\<close> is declared outside this file. The model keeps the three members that
  \<^verbatim>\<open>sample_noise\<close> writes; a default-constructed \<^verbatim>\<open>Op\<close> has an empty name and empty vectors.
  The matrix type \<^verbatim>\<open>cmatrix_t\<close> is the type parameter \<open>'m\<close>.
\<close>

record 'm Op =
  name :: string
  qubits :: reg_t
  mats :: "'m list"

definition Op_default :: "'m Op" where
  "Op_default = \<lparr>name = [], qubits = [], mats = []\<rparr>"

text \<open>
  \<^verbatim>\<open>std::discrete_distribution<uint_t>\<close> is represented by the sequence of weights it was
  constructed from; an empty range of weights gives the distribution with the single
  weight 1, which is also the default-constructed one.
\<close>

definition discrete_distribution :: "rvector_t \<Rightarrow> rvector_t" where
  "discrete_distribution ws = (if ws = [] then [Fin 1] else ws)"

subsection \<open>The class\<close>

text \<open>
  The data members of \<^verbatim>\<open>UnitaryError\<close>: \<^verbatim>\<open>probabilities_\<close>, \<^verbatim>\<open>unitaries_\<close>,
  \<^verbatim>\<open>errors_after_op_\<close> and \<^verbatim>\<open>combine_error_\<close>.
\<close>

record 'm UnitaryError =
  probabilities :: rvector_t
  unitaries :: "'m list"
  errors_after_op :: bool
  combine_error_flag :: bool

text \<open>The object after its implicit default constructor.\<close>

definition UnitaryError_new :: "'m UnitaryError" where
  "UnitaryError_new =
     \<lparr>probabilities = discrete_distribution [], unitaries = [],
      errors_after_op = True, combine_error_flag = True\<rparr>"

definition set_errors_after :: "'m UnitaryError \<Rightarrow> 'm UnitaryError" where
  "set_errors_after this = this\<lparr>errors_after_op := True\<rparr>"

definition set_errors_before :: "'m UnitaryError \<Rightarrow> 'm UnitaryError" where
  "set_errors_before this = this\<lparr>errors_after_op := False\<rparr>"

definition combine_error :: "bool \<Rightarrow> 'm UnitaryError \<Rightarrow> 'm UnitaryError" where
  "combine_error val this = this\<lparr>combine_error_flag := val\<rparr>"

definition set_unitaries :: "'m list \<Rightarrow> 'm UnitaryError \<Rightarrow> 'm UnitaryError" where
  "set_unitaries ms this = this\<lparr>unitaries := ms\<rparr>"

text \<open>
  The loop of \<^verbatim>\<open>set_probabilities\<close> over \<^verbatim>\<open>probs\<close>, on the two locals \<^verbatim>\<open>probs_valid\<close> and
  \<^verbatim>\<open>probs_with_identity\<close>.
\<close>

fun set_probabilities_loop :: "rvector_t \<Rightarrow> bool \<times> rvector_t \<Rightarrow> bool \<times> rvector_t" where
  "set_probabilities_loop [] (probs_valid, probs_with_identity) =
     (probs_valid, probs_with_identity)"
| "set_probabilities_loop (p # ps) (probs_valid, probs_with_identity) =
     set_probabilities_loop ps
       (probs_valid \<and> \<not> (dless p (Fin 0) \<or> dgreater p (Fin 1)),
        (probs_with_identity[0 := dminus (probs_with_identity ! 0) p]) @ [p])"

text \<open>
  \<^verbatim>\<open>set_probabilities\<close> returns how the call ended together with the object afterwards: the
  exception leaves the function before the only assignment to a member.
\<close>

definition set_probabilities ::
  "rvector_t \<Rightarrow> 'm UnitaryError \<Rightarrow> (error + unit) \<times> 'm UnitaryError" where
  "set_probabilities probs this =
     (case set_probabilities_loop probs (True, [Fin 1]) of
        (probs_valid, probs_with_identity) \<Rightarrow>
          if dgreater (probs_with_identity ! 0) (Fin 1)
             \<or> dless (probs_with_identity ! 0) (Fin 0) \<or> \<not> probs_valid
          then (Inl (invalid_argument ''UnitaryError: invalid probability vector.''), this)
          else (Inr (), this\<lparr>probabilities := discrete_distribution probs_with_identity\<rparr>))"

text \<open>
  \<^verbatim>\<open>RngEngine\<close> is declared outside this file: \<^verbatim>\<open>sample_noise\<close> takes its \<^verbatim>\<open>rand_int\<close> as a
  parameter, a function from the state of the engine and the distribution to the index
  drawn and the state of the engine afterwards. Drawing reads the distribution and leaves
  its weights as they are. The result is how the call ended, the object afterwards and the
  engine afterwards.
\<close>

definition sample_noise ::
  "('g \<Rightarrow> rvector_t \<Rightarrow> uint_t \<times> 'g) \<Rightarrow> 'm UnitaryError \<Rightarrow> reg_t \<Rightarrow> 'g
     \<Rightarrow> (error + 'm Op list) \<times> 'm UnitaryError \<times> 'g" where
  "sample_noise rand_int this qs rng =
     (case rand_int rng (probabilities this) of
        (r, rng') \<Rightarrow>
          if r = 0 then (Inr [], this, rng')
          else if unat r > length (unitaries this)
          then (Inl (invalid_argument
                  ''Unitary error probability vector does not match number of unitaries.''),
                this, rng')
          else if unitaries this = []
          then (Inl (invalid_argument ''Unitary error matrices are not set.''), this, rng')
          else
            let err = Op_default;
                err = err\<lparr>name := ''mat''\<rparr>;
                err = err\<lparr>mats := mats err @ [unitaries this ! unat (r - 1)]\<rparr>;
                err = err\<lparr>qubits := qs\<rparr>
            in (Inr [err], this, rng'))"

subsection \<open>Sequences of configuration calls\<close>

text \<open>
  A configuration call is one of the two setters with its argument. A caller that catches
  the exception of \<^verbatim>\<open>set_probabilities\<close> goes on with the object as the call left it.
\<close>

datatype 'm call = Set_probabilities rvector_t | Set_unitaries "'m list"

fun call_step :: "'m UnitaryError \<Rightarrow> 'm call \<Rightarrow> 'm UnitaryError" where
  "call_step this (Set_probabilities probs) = snd (set_probabilities probs this)"
| "call_step this (Set_unitaries ms) = set_unitaries ms this"

definition run_calls :: "'m call list \<Rightarrow> 'm UnitaryError \<Rightarrow> 'm UnitaryError" where
  "run_calls cs this = foldl call_step this cs"

text \<open>The relation between the two vectors that \<^verbatim>\<open>sample_noise\<close> relies on.\<close>

definition lengths_match :: "'m UnitaryError \<Rightarrow> bool" where
  "lengths_match this = (length (probabilities this) = length (unitaries this) + 1)"

subsection \<open>Concrete objects for the examples\<close>

text \<open>
  A channel with one matrix (the number 7 stands for it) and weights one half each, and an
  engine whose state counts the draws and which always draws the index \<open>r\<close>.
\<close>

abbreviation channel_7 :: "nat UnitaryError" where
  "channel_7 \<equiv> \<lparr>probabilities = [Fin (1/2), Fin (1/2)], unitaries = [7],
                 errors_after_op = True, combine_error_flag = False\<rparr>"

abbreviation draws :: "uint_t \<Rightarrow> nat \<Rightarrow> rvector_t \<Rightarrow> uint_t \<times> nat" where
  "draws r \<equiv> (\<lambda>g ws. (r, Suc g))"

subsection \<open>Sampling\<close>

lemma sample_noise_unfold:
  "rand_int rng (probabilities this) = (r, rng')
   \<Longrightarrow> sample_noise rand_int this qs rng =
       (if r = 0 then (Inr [], this, rng')
        else if unat r > length (unitaries this)
        then (Inl (invalid_argument
                ''Unitary error probability vector does not match number of unitaries.''),
              this, rng')
        else if unitaries this = []
        then (Inl (invalid_argument ''Unitary error matrices are not set.''), this, rng')
        else (Inr [\<lparr>name = ''mat'', qubits = qs, mats = [unitaries this ! unat (r - 1)]\<rparr>],
              this, rng'))"
  by (simp add: sample_noise_def Op_default_def)

lemma unat_pos: "(r :: uint_t) \<noteq> 0 \<Longrightarrow> 0 < unat r"
  by (simp add: unat_gt_0)

lemma sample_noise_zero:
  assumes "rand_int rng (probabilities this) = (0, rng')"
  shows "sample_noise rand_int this qs rng = (Inr [], this, rng')"
  using assms by (simp add: sample_noise_unfold)

text \<open>
  In the last branch the index \<^verbatim>\<open>r - 1\<close> is inside \<^verbatim>\<open>unitaries_\<close>, and the subtraction on
  \<^verbatim>\<open>uint_t\<close> does not wrap.
\<close>

lemma sample_noise_in_range:
  assumes "rand_int rng (probabilities this) = (r, rng')"
    and "r \<noteq> 0" and "unat r \<le> length (unitaries this)"
  shows "sample_noise rand_int this qs rng =
           (Inr [\<lparr>name = ''mat'', qubits = qs, mats = [unitaries this ! (unat r - 1)]\<rparr>],
            this, rng')"
proof -
  from assms(2) have pos: "0 < unat r" by (rule unat_pos)
  with assms(3) have "unitaries this \<noteq> []" by auto
  moreover from assms(2) have "unat (r - 1) = unat r - 1" by (rule unat_minus_one)
  ultimately show ?thesis using assms by (simp add: sample_noise_unfold)
qed

lemma sample_noise_out_of_range:
  assumes "rand_int rng (probabilities this) = (r, rng')"
    and "length (unitaries this) < unat r"
  shows "sample_noise rand_int this qs rng =
           (Inl (invalid_argument
                  ''Unitary error probability vector does not match number of unitaries.''),
            this, rng')"
proof -
  from assms(2) have "r \<noteq> 0" by auto
  with assms show ?thesis by (simp add: sample_noise_unfold)
qed

text \<open>
  C1. A call of \<^verbatim>\<open>sample_noise\<close> draws one index \<open>r\<close> from the engine with the
  distribution of the channel. If \<open>r\<close> is 0 the call returns the empty sequence. If \<open>r\<close> is
  between 1 and the number of matrices it returns exactly one operation, named "mat", whose
  only matrix is the one at position \<open>r - 1\<close>. In both cases the engine is left as that one
  draw left it.
\<close>

theorem sample_noise_result:
  assumes "rand_int rng (probabilities this) = (r, rng')"
  shows "(r = 0 \<longrightarrow> sample_noise rand_int this qs rng = (Inr [], this, rng'))
       \<and> (r \<noteq> 0 \<and> unat r \<le> length (unitaries this) \<longrightarrow>
            sample_noise rand_int this qs rng =
              (Inr [\<lparr>name = ''mat'', qubits = qs, mats = [unitaries this ! (unat r - 1)]\<rparr>],
               this, rng'))"
  using assms by (simp add: sample_noise_zero sample_noise_in_range)

theorem sample_noise_result_witness:
  "draws 1 0 (probabilities channel_7) = (1, Suc 0)
   \<and> (1 :: uint_t) \<noteq> 0
   \<and> unat (1 :: uint_t) \<le> length (unitaries channel_7)
   \<and> sample_noise (draws 1) channel_7 [3] 0
       = (Inr [\<lparr>name = ''mat'', qubits = [3], mats = [7]\<rparr>], channel_7, Suc 0)
   \<and> draws 0 0 (probabilities channel_7) = (0, Suc 0)
   \<and> sample_noise (draws 0) channel_7 [3] 0 = (Inr [], channel_7, Suc 0)"
  using sample_noise_result [of "draws 1" 0 channel_7 1 "Suc 0" "[3]"]
        sample_noise_result [of "draws 0" 0 channel_7 0 "Suc 0" "[3]"]
  by simp

text \<open>
  C3. \<^verbatim>\<open>sample_noise\<close> ends with an exception exactly when the index drawn is not 0 and
  either exceeds the number of matrices or the matrix list is empty. The exception is the
  result of the call: no sequence of operations is returned with it.
\<close>

theorem sample_noise_fails_iff:
  assumes "rand_int rng (probabilities this) = (r, rng')"
  shows "(\<exists>msg. fst (sample_noise rand_int this qs rng) = Inl (invalid_argument msg))
         \<longleftrightarrow> (r \<noteq> 0 \<and> (length (unitaries this) < unat r \<or> unitaries this = []))"
proof (cases "r = 0")
  case True
  with assms show ?thesis by (simp add: sample_noise_zero)
next
  case False
  then have pos: "0 < unat r" by (rule unat_pos)
  show ?thesis
  proof (cases "length (unitaries this) < unat r")
    case True
    with assms False show ?thesis by (simp add: sample_noise_out_of_range)
  next
    case False
    with pos have "unitaries this \<noteq> []" by auto
    with assms \<open>r \<noteq> 0\<close> False show ?thesis by (simp add: sample_noise_in_range)
  qed
qed

theorem sample_noise_fails_iff_witness:
  "draws 2 0 (probabilities channel_7) = (2, Suc 0)
   \<and> (2 :: uint_t) \<noteq> 0
   \<and> length (unitaries channel_7) < unat (2 :: uint_t)
   \<and> (\<exists>msg. fst (sample_noise (draws 2) channel_7 [3] 0) = Inl (invalid_argument msg))"
  using sample_noise_fails_iff [of "draws 2" 0 channel_7 2 "Suc 0" "[3]"]
  by simp

text \<open>
  C4. Every operation that \<^verbatim>\<open>sample_noise\<close> returns has the qubit list the call was given.
\<close>

theorem sample_noise_qubits:
  assumes "fst (sample_noise rand_int this qs rng) = Inr ops"
  shows "\<forall>op \<in> set ops. qubits op = qs"
proof (cases "rand_int rng (probabilities this)")
  case (Pair r rng')
  then show ?thesis using assms
    by (auto simp add: sample_noise_unfold split: if_splits)
qed

theorem sample_noise_qubits_witness:
  "fst (sample_noise (draws 1) channel_7 [3, 5] 0)
     = Inr [\<lparr>name = ''mat'', qubits = [3, 5], mats = [7]\<rparr>]
   \<and> qubits \<lparr>name = ''mat'', qubits = [3, 5], mats = [7 :: nat]\<rparr> = [3, 5]"
proof -
  have h: "fst (sample_noise (draws 1) channel_7 [3, 5] 0)
             = Inr [\<lparr>name = ''mat'', qubits = [3, 5], mats = [7]\<rparr>]"
    by (simp add: sample_noise_def Op_default_def)
  from h sample_noise_qubits [OF h] show ?thesis by simp
qed

text \<open>
  C7. \<^verbatim>\<open>sample_noise\<close> leaves the channel as it was: the object after the call equals the
  object before it, in every member. What the call returns is determined by the index
  drawn, the matrix list and the qubits passed: two calls that draw the same index, on
  channels with the same matrices and whatever flags, engines and engine states, return
  the same.
\<close>

theorem sample_noise_frame:
  "fst (snd (sample_noise rand_int this qs rng)) = this
   \<and> (fst (rand_int rng (probabilities this)) = fst (rand_int2 rng2 (probabilities that))
        \<and> unitaries this = unitaries that
      \<longrightarrow> fst (sample_noise rand_int this qs rng) = fst (sample_noise rand_int2 that qs rng2))"
proof (cases "rand_int rng (probabilities this)")
  case (Pair r rng')
  show ?thesis
  proof (cases "rand_int2 rng2 (probabilities that)")
    case (Pair r2 rng2')
    with \<open>rand_int rng (probabilities this) = (r, rng')\<close> show ?thesis
      by (simp add: sample_noise_unfold)
  qed
qed

theorem sample_noise_frame_witness:
  "fst (snd (sample_noise (draws 1) channel_7 [3] 0)) = channel_7
   \<and> fst (draws 1 0 (probabilities channel_7))
       = fst ((\<lambda>g ws. (of_nat (length ws) - 1, g + 2)) (5 :: nat) (probabilities
           \<lparr>probabilities = [Fin (1/4), Fin (3/4)], unitaries = [7 :: nat],
            errors_after_op = False, combine_error_flag = True\<rparr>))
   \<and> unitaries channel_7 = unitaries \<lparr>probabilities = [Fin (1/4), Fin (3/4)],
         unitaries = [7 :: nat], errors_after_op = False, combine_error_flag = True\<rparr>
   \<and> fst (sample_noise (draws 1) channel_7 [3] 0)
       = fst (sample_noise (\<lambda>g ws. (of_nat (length ws) - 1, g + 2))
           \<lparr>probabilities = [Fin (1/4), Fin (3/4)], unitaries = [7 :: nat],
            errors_after_op = False, combine_error_flag = True\<rparr> [3] (5 :: nat))"
  using sample_noise_frame [of "draws 1" channel_7 "[3]" 0
         "\<lambda>g ws. (of_nat (length ws) - 1, g + 2)" "5 :: nat"
         "\<lparr>probabilities = [Fin (1/4), Fin (3/4)], unitaries = [7 :: nat],
          errors_after_op = False, combine_error_flag = True\<rparr>"]
  by simp

text \<open>
  C9. The branch of \<^verbatim>\<open>sample_noise\<close> for an empty matrix list is dead code: an index that
  is not 0 already exceeds the size of an empty list, so the check before it throws, and
  no call ends with the message "Unitary error matrices are not set.".
\<close>

theorem sample_noise_not_set_unreachable:
  "fst (sample_noise rand_int this qs rng)
     \<noteq> Inl (invalid_argument ''Unitary error matrices are not set.'')"
proof (cases "rand_int rng (probabilities this)")
  case (Pair r rng')
  show ?thesis
  proof (cases "r = 0")
    case True
    with Pair show ?thesis by (simp add: sample_noise_unfold)
  next
    case False
    then have "0 < unat r" by (rule unat_pos)
    with Pair False show ?thesis by (simp add: sample_noise_unfold)
  qed
qed

subsection \<open>The flags\<close>

text \<open>
  C6. \<^verbatim>\<open>set_errors_after\<close>, \<^verbatim>\<open>set_errors_before\<close> and \<^verbatim>\<open>combine_error\<close> each write one flag
  and nothing else: the distribution, the matrix list and the other flag are as before,
  and a following \<^verbatim>\<open>sample_noise\<close> returns what it would have returned without the call.
\<close>

theorem flag_setters_frame:
  "set_errors_after this = this\<lparr>errors_after_op := True\<rparr>
   \<and> set_errors_before this = this\<lparr>errors_after_op := False\<rparr>
   \<and> combine_error val this = this\<lparr>combine_error_flag := val\<rparr>
   \<and> probabilities (set_errors_after this) = probabilities this
   \<and> unitaries (set_errors_after this) = unitaries this
   \<and> combine_error_flag (set_errors_after this) = combine_error_flag this
   \<and> probabilities (set_errors_before this) = probabilities this
   \<and> unitaries (set_errors_before this) = unitaries this
   \<and> combine_error_flag (set_errors_before this) = combine_error_flag this
   \<and> probabilities (combine_error val this) = probabilities this
   \<and> unitaries (combine_error val this) = unitaries this
   \<and> errors_after_op (combine_error val this) = errors_after_op this
   \<and> fst (sample_noise rand_int (set_errors_after this) qs rng)
       = fst (sample_noise rand_int this qs rng)
   \<and> fst (sample_noise rand_int (set_errors_before this) qs rng)
       = fst (sample_noise rand_int this qs rng)
   \<and> fst (sample_noise rand_int (combine_error val this) qs rng)
       = fst (sample_noise rand_int this qs rng)"
  by (simp add: set_errors_after_def set_errors_before_def combine_error_def sample_noise_def
      split: prod.splits)

subsection \<open>Setting the probabilities\<close>

text \<open>
  The loop subtracts every entry from the first element, appends it, and accumulates the
  range check.
\<close>

lemma set_probabilities_loop_eq:
  "set_probabilities_loop ps (v, w # ws)
     = (v \<and> list_all (\<lambda>p. \<not> (dless p (Fin 0) \<or> dgreater p (Fin 1))) ps,
        foldl dminus w ps # ws @ ps)"
  by (induction ps arbitrary: v w ws) auto

lemma foldl_dminus_Fin: "foldl dminus (Fin a) (map Fin xs) = Fin (a - sum_list xs)"
  by (induction xs arbitrary: a) (simp_all add: algebra_simps)

lemma set_probabilities_unfold:
  "set_probabilities probs this =
     (if dgreater (foldl dminus (Fin 1) probs) (Fin 1)
         \<or> dless (foldl dminus (Fin 1) probs) (Fin 0)
         \<or> \<not> list_all (\<lambda>p. \<not> (dless p (Fin 0) \<or> dgreater p (Fin 1))) probs
      then (Inl (invalid_argument ''UnitaryError: invalid probability vector.''), this)
      else (Inr (), this\<lparr>probabilities := foldl dminus (Fin 1) probs # probs\<rparr>))"
  by (simp add: set_probabilities_def set_probabilities_loop_eq discrete_distribution_def)

lemma set_probabilities_fst:
  "fst (set_probabilities probs this) = fst (set_probabilities probs that)"
  by (simp add: set_probabilities_unfold)

lemma set_probabilities_success:
  "fst (set_probabilities probs this) = Inr ()
   \<Longrightarrow> snd (set_probabilities probs this)
       = this\<lparr>probabilities := foldl dminus (Fin 1) probs # probs\<rparr>"
  by (auto simp add: set_probabilities_unfold split: if_splits)

lemma set_probabilities_failure:
  "fst (set_probabilities probs this) = Inl e \<Longrightarrow> snd (set_probabilities probs this) = this"
  by (auto simp add: set_probabilities_unfold split: if_splits)

text \<open>
  On finite numbers the call does what is expected of it: it succeeds exactly when every
  entry is between 0 and 1 and the entries sum to at most 1, and then the weights are
  1 minus the sum, followed by the entries.
\<close>

lemma set_probabilities_finite:
  "set_probabilities (map Fin xs) this =
     (if (\<forall>x \<in> set xs. 0 \<le> x \<and> x \<le> 1) \<and> sum_list xs \<le> 1
      then (Inr (), this\<lparr>probabilities := Fin (1 - sum_list xs) # map Fin xs\<rparr>)
      else (Inl (invalid_argument ''UnitaryError: invalid probability vector.''), this))"
proof -
  let ?valid = "list_all (\<lambda>p. \<not> (dless p (Fin 0) \<or> dgreater p (Fin 1))) (map Fin xs)"
  have ok: "?valid \<longleftrightarrow> (\<forall>x \<in> set xs. 0 \<le> x \<and> x \<le> 1)"
    unfolding list_all_iff dgreater_def by auto
  have nonneg: "0 \<le> sum_list xs" if "\<forall>x \<in> set xs. 0 \<le> x \<and> x \<le> 1"
    using that by (simp add: sum_list_nonneg)
  have cond: "(dgreater (Fin (1 - sum_list xs)) (Fin 1)
                 \<or> dless (Fin (1 - sum_list xs)) (Fin 0) \<or> \<not> ?valid)
              \<longleftrightarrow> \<not> ((\<forall>x \<in> set xs. 0 \<le> x \<and> x \<le> 1) \<and> sum_list xs \<le> 1)"
    using ok nonneg by (auto simp add: dgreater_def)
  show ?thesis
    unfolding set_probabilities_unfold foldl_dminus_Fin cond by simp
qed

text \<open>An infinite entry is rejected by the range check.\<close>

lemma set_probabilities_infinite:
  assumes "PInf \<in> set probs \<or> NInf \<in> set probs"
  shows "set_probabilities probs this
           = (Inl (invalid_argument ''UnitaryError: invalid probability vector.''), this)"
proof -
  have "dgreater PInf (Fin 1)" by (simp add: dgreater_def)
  moreover have "dless NInf (Fin 0)" by simp
  ultimately have "\<exists>p \<in> set probs. dless p (Fin 0) \<or> dgreater p (Fin 1)"
    using assms by blast
  then have "\<not> list_all (\<lambda>p. \<not> (dless p (Fin 0) \<or> dgreater p (Fin 1))) probs"
    by (simp add: list_all_iff)
  then show ?thesis by (simp add: set_probabilities_unfold)
qed

text \<open>
  C2. The claim: \<^verbatim>\<open>set_probabilities(probs)\<close> succeeds if and only if every entry is in
  [0, 1] and the entries sum to at most 1, and fails with the exception otherwise. The
  code misses one case. The range check is written \<^verbatim>\<open>!(p < 0 || p > 1)\<close>, and both
  comparisons are false for a NaN; the first weight is then a NaN too, and neither
  \<^verbatim>\<open>> 1\<close> nor \<^verbatim>\<open>< 0\<close> holds of it. So the call with the single entry NaN, which is not in
  [0, 1], throws nothing and installs the weights NaN, NaN.
\<close>

theorem set_probabilities_accepts_NaN:
  "set_probabilities [NaN] this = (Inr (), this\<lparr>probabilities := [NaN, NaN]\<rparr>)"
  by (simp add: set_probabilities_def discrete_distribution_def dgreater_def)

text \<open>
  C10. A call of \<^verbatim>\<open>set_probabilities\<close> that throws leaves the object exactly as it was:
  the check comes before the assignment to \<^verbatim>\<open>probabilities_\<close>, and no other member is
  written.
\<close>

theorem set_probabilities_failure_atomic:
  assumes "fst (set_probabilities probs this) = Inl e"
  shows "snd (set_probabilities probs this) = this"
  using assms by (rule set_probabilities_failure)

theorem set_probabilities_failure_atomic_witness:
  "fst (set_probabilities [Fin (3/4), Fin (1/2)] channel_7)
     = Inl (invalid_argument ''UnitaryError: invalid probability vector.'')
   \<and> snd (set_probabilities [Fin (3/4), Fin (1/2)] channel_7) = channel_7"
proof -
  have h: "fst (set_probabilities [Fin (3/4), Fin (1/2)] channel_7)
     = Inl (invalid_argument ''UnitaryError: invalid probability vector.'')"
    by (simp add: set_probabilities_def dgreater_def)
  from h set_probabilities_failure_atomic [OF h] show ?thesis by simp
qed

subsection \<open>The two setters together\<close>

text \<open>
  C8. Repeating a setter with the same argument changes nothing: the second call of
  \<^verbatim>\<open>set_probabilities\<close> ends as the first did and leaves the object the first left, and
  likewise for \<^verbatim>\<open>set_unitaries\<close>. The two setters commute: \<^verbatim>\<open>set_probabilities\<close> after
  \<^verbatim>\<open>set_unitaries\<close> ends as it does before it, and both orders give the same object.
\<close>

theorem setters_idempotent_commute:
  "set_probabilities probs (snd (set_probabilities probs this)) = set_probabilities probs this
   \<and> set_unitaries ms (set_unitaries ms this) = set_unitaries ms this
   \<and> set_probabilities probs (set_unitaries ms this)
       = (fst (set_probabilities probs this), set_unitaries ms (snd (set_probabilities probs this)))"
  by (simp add: set_probabilities_unfold set_unitaries_def)

theorem setters_idempotent_commute_witness:
  "set_probabilities [Fin (1/4)] (snd (set_probabilities [Fin (1/4)] channel_7))
     = (Inr (), \<lparr>probabilities = [Fin (3/4), Fin (1/4)], unitaries = [7],
                 errors_after_op = True, combine_error_flag = False\<rparr>)
   \<and> set_probabilities [Fin (1/4)] channel_7
     = (Inr (), \<lparr>probabilities = [Fin (3/4), Fin (1/4)], unitaries = [7],
                 errors_after_op = True, combine_error_flag = False\<rparr>)
   \<and> set_unitaries [9] (set_unitaries [9] channel_7) = set_unitaries [9] channel_7
   \<and> set_probabilities [Fin (1/4)] (set_unitaries [9] channel_7)
     = (Inr (), \<lparr>probabilities = [Fin (3/4), Fin (1/4)], unitaries = [9],
                 errors_after_op = True, combine_error_flag = False\<rparr>)
   \<and> set_unitaries [9] (snd (set_probabilities [Fin (1/4)] channel_7))
     = \<lparr>probabilities = [Fin (3/4), Fin (1/4)], unitaries = [9],
        errors_after_op = True, combine_error_flag = False\<rparr>"
  using setters_idempotent_commute [of "[Fin (1/4)]" channel_7 "[9]"]
  by (simp add: set_probabilities_def set_unitaries_def discrete_distribution_def dgreater_def)

text \<open>
  C5. The claim: the weight vector is one longer than the matrix list at all times, after
  every sequence of calls of the two setters. Neither setter looks at the other vector,
  so this fails: after \<^verbatim>\<open>set_probabilities\<close> with one entry and \<^verbatim>\<open>set_unitaries\<close> with two
  matrices, on a new object, there are two weights and two matrices.
\<close>

theorem lengths_match_counterexample:
  "\<not> lengths_match
       (run_calls [Set_probabilities [Fin (1/2)], Set_unitaries [7, 8 :: nat]] UnitaryError_new)"
  by (simp add: lengths_match_def run_calls_def set_probabilities_def set_unitaries_def
      UnitaryError_new_def discrete_distribution_def dgreater_def)

text \<open>
  C5, amended. The relation holds of a new object. After a \<^verbatim>\<open>set_probabilities(probs)\<close>
  that succeeds and a \<^verbatim>\<open>set_unitaries(mats)\<close>, in either order and from any object, it
  holds if and only if \<^verbatim>\<open>probs\<close> and \<^verbatim>\<open>mats\<close> have the same length.
\<close>

theorem lengths_match_setters:
  assumes "fst (set_probabilities probs this) = Inr ()"
  shows "lengths_match (UnitaryError_new :: 'm UnitaryError)
       \<and> (lengths_match (set_unitaries ms (snd (set_probabilities probs this)))
            \<longleftrightarrow> length probs = length ms)
       \<and> (lengths_match (snd (set_probabilities probs (set_unitaries ms this)))
            \<longleftrightarrow> length probs = length ms)"
proof -
  from assms have "fst (set_probabilities probs (set_unitaries ms this)) = Inr ()"
    by (simp add: set_probabilities_fst [of probs "set_unitaries ms this" this])
  with assms show ?thesis
    by (auto simp add: set_probabilities_success lengths_match_def set_unitaries_def
        UnitaryError_new_def discrete_distribution_def)
qed

theorem lengths_match_setters_witness:
  "fst (set_probabilities [Fin (1/4), Fin (1/2)] channel_7) = Inr ()
   \<and> lengths_match (UnitaryError_new :: nat UnitaryError)
   \<and> lengths_match (set_unitaries [8, 9] (snd (set_probabilities [Fin (1/4), Fin (1/2)] channel_7)))
   \<and> lengths_match (snd (set_probabilities [Fin (1/4), Fin (1/2)] (set_unitaries [8, 9] channel_7)))
   \<and> length [Fin (1/4), Fin (1/2)] = length [8, 9 :: nat]"
proof -
  have h: "fst (set_probabilities [Fin (1/4), Fin (1/2)] channel_7) = Inr ()"
    by (simp add: set_probabilities_def dgreater_def)
  from h lengths_match_setters [OF h, of "[8, 9]"] show ?thesis by simp
qed

end
